theory Spec2Isabelle
  imports Main
begin

section \<open>Python values\<close>

text \<open>
  The indicator (\<^verbatim>\<open>camera-relay-systray.py\<close>) stores in \<^verbatim>\<open>self.running\<close> and
  \<^verbatim>\<open>self.persistent\<close> whatever \<^verbatim>\<open>json.loads\<close> produced, and branches on the
  truth value of these objects. The values \<^verbatim>\<open>json.loads\<close> can produce are modelled by
  \<open>pyval\<close>.

  A Python \<^verbatim>\<open>str\<close> is modelled by the list of the bytes of its UTF-8 encoding: the
  characters of JSON syntax, of the labels and of the messages are ASCII, and every other
  code point is the byte sequence that encodes it.

  A float is kept as the decimal literal it was read from, \<open>Decimal m e\<close> standing for
  \<open>m * 10 ^ e\<close>; the program only ever asks whether a float is zero.
\<close>

datatype pyfloat = Decimal int int | NaN | Infinity | NegInfinity

datatype pyval =
    PyNone
  | PyBool bool
  | PyInt int
  | PyFloat pyfloat
  | PyStr string
  | PyList "pyval list"
  | PyDict "(string \<times> pyval) list"

text \<open>
  \<^verbatim>\<open>float(literal)\<close> rounds to the nearest binary64 value, ties to even. The result
  is zero exactly when the absolute value of the literal is at most \<open>2 ^ -1075\<close>, half of
  the least positive binary64 value.
\<close>

fun float_nonzero :: "pyfloat \<Rightarrow> bool" where
  "float_nonzero (Decimal m e) =
     (if 0 \<le> e then m \<noteq> 0 else 10 ^ nat (- e) < \<bar>m\<bar> * 2 ^ 1075)"
| "float_nonzero NaN = True"
| "float_nonzero Infinity = True"
| "float_nonzero NegInfinity = True"

text \<open>Truth value testing, as done by \<^verbatim>\<open>if x\<close> and \<^verbatim>\<open>a if x else b\<close>.\<close>

fun truthy :: "pyval \<Rightarrow> bool" where
  "truthy PyNone = False"
| "truthy (PyBool b) = b"
| "truthy (PyInt i) = (i \<noteq> 0)"
| "truthy (PyFloat f) = float_nonzero f"
| "truthy (PyStr s) = (s \<noteq> [])"
| "truthy (PyList xs) = (xs \<noteq> [])"
| "truthy (PyDict d) = (d \<noteq> [])"

text \<open>
  A dict keeps its keys in insertion order; storing under a key that is present replaces
  the value in place.
\<close>

fun dict_set :: "(string \<times> pyval) list \<Rightarrow> string \<Rightarrow> pyval \<Rightarrow> (string \<times> pyval) list" where
  "dict_set [] k v = [(k, v)]"
| "dict_set ((k', v') # d) k v = (if k' = k then (k, v) # d else (k', v') # dict_set d k v)"

text \<open>\<^verbatim>\<open>dict(pairs)\<close>: the pairs are stored from left to right.\<close>

definition dict_of_pairs :: "(string \<times> pyval) list \<Rightarrow> (string \<times> pyval) list" where
  "dict_of_pairs ps = foldl (\<lambda>d (k, v). dict_set d k v) [] ps"

text \<open>The exception classes that the calls of the program can raise.\<close>

datatype exn =
    TimeoutExpired
  | JSONDecodeError
  | FileNotFoundError
  | BlockingIOError
  | PermissionError
  | OSError
  | AttributeError
  | RecursionError
  | ValueError
  | UnicodeDecodeError
  | RuntimeError

text \<open>\<^verbatim>\<open>isinstance(e, OSError)\<close>, as tested by \<^verbatim>\<open>except OSError\<close>.\<close>

fun is_OSError :: "exn \<Rightarrow> bool" where
  "is_OSError FileNotFoundError = True"
| "is_OSError BlockingIOError = True"
| "is_OSError PermissionError = True"
| "is_OSError OSError = True"
| "is_OSError _ = False"

section \<open>The JSON decoder\<close>

text \<open>
  \<^verbatim>\<open>json.loads\<close> is the decoder of the Python standard library. It is modelled as a
  recursive-descent scanner after the library's \<^verbatim>\<open>scan_once\<close>, \<^verbatim>\<open>JSONObject\<close>,
  \<^verbatim>\<open>JSONArray\<close> and \<^verbatim>\<open>scanstring\<close>, under the two limits of the interpreter that
  make it raise an exception other than \<^verbatim>\<open>JSONDecodeError\<close>: the limit on nested calls
  and the limit on the digits of an integer.
\<close>

definition is_ws :: "char \<Rightarrow> bool" where
  "is_ws c = (c = CHR '' '' \<or> c = CHR 0x09 \<or> c = CHR 0x0A \<or> c = CHR 0x0D)"

definition skip_ws :: "string \<Rightarrow> string" where
  "skip_ws s = dropWhile is_ws s"

text \<open>The code of a character, and membership in a range of characters.\<close>

definition ord :: "char \<Rightarrow> nat" where
  "ord c = of_char c"

definition in_range :: "char \<Rightarrow> char \<Rightarrow> char \<Rightarrow> bool" where
  "in_range lo hi c = (ord lo \<le> ord c \<and> ord c \<le> ord hi)"

definition is_digit :: "char \<Rightarrow> bool" where
  "is_digit c = in_range (CHR ''0'') (CHR ''9'') c"

definition digit_val :: "char \<Rightarrow> nat" where
  "digit_val c = ord c - ord (CHR ''0'')"

definition digits_val :: "string \<Rightarrow> nat" where
  "digits_val ds = foldl (\<lambda>a c. 10 * a + digit_val c) 0 ds"

definition hex_val :: "char \<Rightarrow> nat option" where
  "hex_val c =
     (if in_range (CHR ''0'') (CHR ''9'') c then Some (ord c - ord (CHR ''0''))
      else if in_range (CHR ''a'') (CHR ''f'') c then Some (ord c - ord (CHR ''a'') + 10)
      else if in_range (CHR ''A'') (CHR ''F'') c then Some (ord c - ord (CHR ''A'') + 10)
      else None)"

text \<open>The four hexadecimal digits of a \<^verbatim>\<open>\uXXXX\<close> escape, and what follows them.\<close>

fun hex4 :: "string \<Rightarrow> (nat \<times> string) option" where
  "hex4 (a # b # c # d # rest) =
     (case (hex_val a, hex_val b, hex_val c, hex_val d) of
        (Some x, Some y, Some z, Some w) \<Rightarrow> Some (((x * 16 + y) * 16 + z) * 16 + w, rest)
      | _ \<Rightarrow> None)"
| "hex4 _ = None"

text \<open>The UTF-8 bytes of a code point (a lone surrogate is encoded like any other).\<close>

definition utf8 :: "nat \<Rightarrow> string" where
  "utf8 n =
     (if n < 0x80 then [char_of n]
      else if n < 0x800 then [char_of (0xC0 + n div 64), char_of (0x80 + n mod 64)]
      else if n < 0x10000 then
        [char_of (0xE0 + n div 4096), char_of (0x80 + n div 64 mod 64), char_of (0x80 + n mod 64)]
      else
        [char_of (0xF0 + n div 262144), char_of (0x80 + n div 4096 mod 64),
         char_of (0x80 + n div 64 mod 64), char_of (0x80 + n mod 64)])"

definition simple_escape :: "char \<Rightarrow> char option" where
  "simple_escape e =
     (if e = CHR 0x22 then Some (CHR 0x22)
      else if e = CHR 0x5C then Some (CHR 0x5C)
      else if e = CHR ''/'' then Some (CHR ''/'')
      else if e = CHR ''b'' then Some (CHR 0x08)
      else if e = CHR ''f'' then Some (CHR 0x0C)
      else if e = CHR ''n'' then Some (CHR 0x0A)
      else if e = CHR ''r'' then Some (CHR 0x0D)
      else if e = CHR ''t'' then Some (CHR 0x09)
      else None)"

definition prepend :: "string \<Rightarrow> (string \<times> string) option \<Rightarrow> (string \<times> string) option" where
  "prepend p r = map_option (\<lambda>(s, rest). (p @ s, rest)) r"

text \<open>
  \<^verbatim>\<open>scanstring\<close> in strict mode, started after the opening quote: the decoded string
  and the text after the closing quote, or \<open>None\<close> for an unterminated string, a control
  character or an invalid escape. A high surrogate escape followed by a low surrogate
  escape is one code point.
\<close>

fun scanstring :: "string \<Rightarrow> (string \<times> string) option" where
  "scanstring [] = None"
| "scanstring (c # cs) =
     (if c = CHR 0x22 then Some ([], cs)
      else if c = CHR 0x5C then
        (case cs of
           [] \<Rightarrow> None
         | e # cs' \<Rightarrow>
             if e = CHR ''u'' then
               (case hex4 cs' of
                  None \<Rightarrow> None
                | Some (hi, r) \<Rightarrow>
                    (case r of
                       b # u # r' \<Rightarrow>
                         if 0xD800 \<le> hi \<and> hi < 0xDC00 \<and> b = CHR 0x5C \<and> u = CHR ''u'' then
                           (case hex4 r' of
                              None \<Rightarrow> None
                            | Some (lo, r'') \<Rightarrow>
                                if 0xDC00 \<le> lo \<and> lo < 0xE000
                                then prepend (utf8 (0x10000 + (hi - 0xD800) * 1024 + (lo - 0xDC00)))
                                       (scanstring (drop 10 cs'))
                                else prepend (utf8 hi) (scanstring (drop 4 cs')))
                         else prepend (utf8 hi) (scanstring (drop 4 cs'))
                     | _ \<Rightarrow> prepend (utf8 hi) (scanstring (drop 4 cs'))))
             else
               (case simple_escape e of
                  None \<Rightarrow> None
                | Some ch \<Rightarrow> prepend [ch] (scanstring cs')))
      else if ord c < 0x20 then None
      else prepend [c] (scanstring cs))"

text \<open>
  The result of a scan: a value and the rest of the text, or the exception raised. \<open>Stop\<close>
  is the result of a scan whose bound on the number of calls is used up; the bound that
  \<open>json_loads\<close> gives is never used up (lemma \<open>json_loads_bound\<close>).
\<close>

datatype scan = Ok pyval string | Err exn | Stop

text \<open>
  The number pattern of the scanner,
  \<^verbatim>\<open>(-?(?:0|[1-9][0-9]*))(\.[0-9]+)?([eE][-+]?[0-9]+)?\<close>, matched at the start of the
  text: an \<^verbatim>\<open>int\<close> without fraction and exponent, a \<^verbatim>\<open>float\<close> otherwise.
\<close>

definition scan_int_part :: "string \<Rightarrow> (string \<times> string) option" where
  "scan_int_part s =
     (case s of
        [] \<Rightarrow> None
      | d # r \<Rightarrow>
          if d = CHR ''0'' then Some ([d], r)
          else if is_digit d then Some (d # takeWhile is_digit r, dropWhile is_digit r)
          else None)"

definition scan_frac :: "string \<Rightarrow> string \<times> string" where
  "scan_frac s =
     (case s of
        [] \<Rightarrow> ([], s)
      | p # r \<Rightarrow>
          if p = CHR ''.'' \<and> takeWhile is_digit r \<noteq> []
          then (takeWhile is_digit r, dropWhile is_digit r)
          else ([], s))"

text \<open>The exponent part: whether there is one, its value, and what follows.\<close>

definition scan_exp :: "string \<Rightarrow> (int option) \<times> string" where
  "scan_exp s =
     (case s of
        [] \<Rightarrow> (None, s)
      | e # r \<Rightarrow>
          if e = CHR ''e'' \<or> e = CHR ''E'' then
            (case r of
               [] \<Rightarrow> (None, s)
             | g # r' \<Rightarrow>
                 if g = CHR ''-'' \<and> takeWhile is_digit r' \<noteq> []
                 then (Some (- int (digits_val (takeWhile is_digit r'))), dropWhile is_digit r')
                 else if g = CHR ''+'' \<and> takeWhile is_digit r' \<noteq> []
                 then (Some (int (digits_val (takeWhile is_digit r'))), dropWhile is_digit r')
                 else if takeWhile is_digit r \<noteq> []
                 then (Some (int (digits_val (takeWhile is_digit r))), dropWhile is_digit r)
                 else (None, s))
          else (None, s))"

text \<open>
  The limits of the interpreter that the decoder is subject to. \<open>nesting\<close> is the number
  of nested arrays and objects that can still be entered at the call of the scanner before
  the interpreter raises \<^verbatim>\<open>RecursionError\<close>: the recursion limit
  (\<^verbatim>\<open>sys.getrecursionlimit()\<close>, 1000 unless changed) less the depth of the stack in use.
  \<open>max_str_digits\<close> is \<^verbatim>\<open>sys.get_int_max_str_digits()\<close>, 4300 unless changed: \<^verbatim>\<open>int\<close>
  refuses a decimal literal of more digits with \<^verbatim>\<open>ValueError\<close>; the test is made for
  literals of more than 640 digits only, and 0 switches it off (as in an interpreter that
  has no such limit).
\<close>

record limits =
  nesting :: nat
  max_str_digits :: nat

text \<open>
  A number at the start of the text, if there is one: an integer literal is converted by
  \<^verbatim>\<open>int\<close>, under the limit \<open>m\<close> on its digits, any other by \<^verbatim>\<open>float\<close>.
\<close>

definition scan_number :: "nat \<Rightarrow> string \<Rightarrow> scan option" where
  "scan_number m s =
     (let (neg, s1) = (case s of [] \<Rightarrow> (False, s) | c # r \<Rightarrow> if c = CHR ''-'' then (True, r) else (False, s));
          sgn = (if neg then - 1 else 1 :: int)
      in case scan_int_part s1 of
           None \<Rightarrow> None
         | Some (ds, s2) \<Rightarrow>
             (let (fs, s3) = scan_frac s2; (ex, s4) = scan_exp s3
              in if fs = [] \<and> ex = None then
                   (if 640 < length ds \<and> 0 < m \<and> m < length ds then Some (Err ValueError)
                    else Some (Ok (PyInt (sgn * int (digits_val ds))) s4))
                 else Some (Ok (PyFloat (Decimal (sgn * int (digits_val (ds @ fs)))
                                                 ((case ex of None \<Rightarrow> 0 | Some x \<Rightarrow> x) - int (length fs)))) s4)))"

text \<open>\<^verbatim>\<open>s[idx:idx + len(w)] == w\<close>\<close>

definition starts_with :: "string \<Rightarrow> string \<Rightarrow> bool" where
  "starts_with w s = (take (length w) s = w)"

text \<open>
  \<open>scan_once\<close> reads one value at the start of the text. \<open>json_array\<close> is the loop of
  \<^verbatim>\<open>JSONArray\<close>, entered at the first character of an element with the elements read so
  far; \<open>json_object\<close> is the loop of \<^verbatim>\<open>JSONObject\<close>, entered after the opening quote
  of a key with the pairs read so far. The first argument bounds the number of calls. The
  second, \<open>d\<close>, is the number of arrays and objects that can still be entered: the scanner
  enters a recursive call of the interpreter at every \<^verbatim>\<open>[\<close> and \<^verbatim>\<open>{\<close>, before it looks
  at what follows, and the call is refused with \<^verbatim>\<open>RecursionError\<close> when none is left.
  The third, \<open>m\<close>, is the limit on the digits of an integer.
\<close>

fun scan_once :: "nat \<Rightarrow> nat \<Rightarrow> nat \<Rightarrow> string \<Rightarrow> scan"
  and json_array :: "nat \<Rightarrow> nat \<Rightarrow> nat \<Rightarrow> string \<Rightarrow> pyval list \<Rightarrow> scan"
  and json_object :: "nat \<Rightarrow> nat \<Rightarrow> nat \<Rightarrow> string \<Rightarrow> (string \<times> pyval) list \<Rightarrow> scan" where
  "scan_once 0 d m s = Stop"
| "scan_once (Suc n) d m s =
     (case s of
        [] \<Rightarrow> Err JSONDecodeError
      | c # cs \<Rightarrow>
          if c = CHR 0x22 then
            (case scanstring cs of
               None \<Rightarrow> Err JSONDecodeError
             | Some (str, r) \<Rightarrow> Ok (PyStr str) r)
          else if c = CHR ''{'' then
            (case d of
               0 \<Rightarrow> Err RecursionError
             | Suc d' \<Rightarrow>
                 (case skip_ws cs of
                    [] \<Rightarrow> Err JSONDecodeError
                  | q # r \<Rightarrow>
                      if q = CHR ''}'' then Ok (PyDict []) r
                      else if q = CHR 0x22 then json_object n d' m r []
                      else Err JSONDecodeError))
          else if c = CHR ''['' then
            (case d of
               0 \<Rightarrow> Err RecursionError
             | Suc d' \<Rightarrow>
                 (case skip_ws cs of
                    [] \<Rightarrow> Err JSONDecodeError
                  | q # r \<Rightarrow>
                      if q = CHR '']'' then Ok (PyList []) r
                      else json_array n d' m (q # r) []))
          else if starts_with ''null'' s then Ok PyNone (drop 4 s)
          else if starts_with ''true'' s then Ok (PyBool True) (drop 4 s)
          else if starts_with ''false'' s then Ok (PyBool False) (drop 5 s)
          else
            (case scan_number m s of
               Some res \<Rightarrow> res
             | None \<Rightarrow>
                 if starts_with ''NaN'' s then Ok (PyFloat NaN) (drop 3 s)
                 else if starts_with ''Infinity'' s then Ok (PyFloat Infinity) (drop 8 s)
                 else if starts_with ''-Infinity'' s then Ok (PyFloat NegInfinity) (drop 9 s)
                 else Err JSONDecodeError))"
| "json_array 0 d m s acc = Stop"
| "json_array (Suc n) d m s acc =
     (case scan_once n d m s of
        Err e \<Rightarrow> Err e
      | Stop \<Rightarrow> Stop
      | Ok v r \<Rightarrow>
          (case skip_ws r of
             [] \<Rightarrow> Err JSONDecodeError
           | q # r' \<Rightarrow>
               if q = CHR '']'' then Ok (PyList (acc @ [v])) r'
               else if q = CHR '','' then json_array n d m (skip_ws r') (acc @ [v])
               else Err JSONDecodeError))"
| "json_object 0 d m s acc = Stop"
| "json_object (Suc n) d m s acc =
     (case scanstring s of
        None \<Rightarrow> Err JSONDecodeError
      | Some (key, r) \<Rightarrow>
          (case skip_ws r of
             [] \<Rightarrow> Err JSONDecodeError
           | col # r1 \<Rightarrow>
               if col \<noteq> CHR '':'' then Err JSONDecodeError
               else
                 (case scan_once n d m (skip_ws r1) of
                    Err e \<Rightarrow> Err e
                  | Stop \<Rightarrow> Stop
                  | Ok v r2 \<Rightarrow>
                      (case skip_ws r2 of
                         [] \<Rightarrow> Err JSONDecodeError
                       | q # r3 \<Rightarrow>
                           if q = CHR ''}'' then Ok (PyDict (dict_of_pairs (acc @ [(key, v)]))) r3
                           else if q = CHR '','' then
                             (case skip_ws r3 of
                                [] \<Rightarrow> Err JSONDecodeError
                              | q' # r4 \<Rightarrow>
                                  if q' = CHR 0x22 then json_object n d m r4 (acc @ [(key, v)])
                                  else Err JSONDecodeError)
                           else Err JSONDecodeError))))"

text \<open>
  \<^verbatim>\<open>json.loads(s)\<close> under the limits \<open>py\<close>: leading whitespace, one value, trailing
  whitespace, and nothing else. An exception of the scan leaves \<^verbatim>\<open>json.loads\<close> as it
  is: \<^verbatim>\<open>JSONDecodeError\<close> for a syntax error, \<^verbatim>\<open>RecursionError\<close>, or the
  \<^verbatim>\<open>ValueError\<close> of \<^verbatim>\<open>int\<close>. Every second call of the scanner at least has consumed
  a character of the text, so twice the length of the text (and two) bounds the calls, and
  the case \<open>Stop\<close> does not occur.
\<close>

definition json_loads :: "limits \<Rightarrow> string \<Rightarrow> exn + pyval" where
  "json_loads py s =
     (case scan_once (2 * length s + 2) (nesting py) (max_str_digits py) (skip_ws s) of
        Err e \<Rightarrow> Inl e
      | Stop \<Rightarrow> Inl RuntimeError
      | Ok v r \<Rightarrow> if skip_ws r = [] then Inr v else Inl JSONDecodeError)"

text \<open>
  The limits in an interpreter that runs with its defaults (a recursion limit of 1000 and a
  digit limit of 4300), at a call of the scanner made with ten frames on the stack.
\<close>

definition default_limits :: limits where
  "default_limits = \<lparr>nesting = 990, max_str_digits = 4300\<rparr>"

section \<open>Strings\<close>

text \<open>
  \<^verbatim>\<open>str.strip()\<close> removes the leading and trailing whitespace characters of a
  \<^verbatim>\<open>str\<close>: the ASCII characters 9 to 13, 28 to 31 and 32, and the code points U+0085,
  U+00A0, U+1680, U+2000 to U+200A, U+2028, U+2029, U+202F, U+205F and U+3000, each of them
  here as its UTF-8 bytes.
\<close>

definition whitespace :: "string list" where
  "whitespace =
     map utf8
       [0x09, 0x0A, 0x0B, 0x0C, 0x0D, 0x1C, 0x1D, 0x1E, 0x1F, 0x20, 0x85, 0xA0, 0x1680,
        0x2000, 0x2001, 0x2002, 0x2003, 0x2004, 0x2005, 0x2006, 0x2007, 0x2008, 0x2009,
        0x200A, 0x2028, 0x2029, 0x202F, 0x205F, 0x3000]"

text \<open>The length of the first of the sequences \<open>ws\<close> that the text starts with, or 0.\<close>

definition lead_len :: "string list \<Rightarrow> string \<Rightarrow> nat" where
  "lead_len ws s = (case find (\<lambda>w. starts_with w s) ws of None \<Rightarrow> 0 | Some w \<Rightarrow> length w)"

fun strip_lead :: "string list \<Rightarrow> string \<Rightarrow> string" where
  "strip_lead ws [] = []"
| "strip_lead ws (c # cs) =
     (case lead_len ws (c # cs) of
        0 \<Rightarrow> c # cs
      | Suc k \<Rightarrow> strip_lead ws (drop k cs))"

definition lstrip :: "string \<Rightarrow> string" where
  "lstrip s = strip_lead whitespace s"

definition rstrip :: "string \<Rightarrow> string" where
  "rstrip s = rev (strip_lead (map rev whitespace) (rev s))"

definition strip :: "string \<Rightarrow> string" where
  "strip s = rstrip (lstrip s)"

text \<open>\<^verbatim>\<open>a or b\<close> on strings: \<^verbatim>\<open>a\<close> unless it is empty.\<close>

definition str_or :: "string \<Rightarrow> string \<Rightarrow> string" where
  "str_or a b = (if a \<noteq> [] then a else b)"

section \<open>The external process\<close>

definition RELAY_CMD :: string where
  "RELAY_CMD = ''/usr/local/bin/camera-relay''"

definition POLL_INTERVAL :: nat where
  "POLL_INTERVAL = 5"

text \<open>
  What a call \<^verbatim>\<open>subprocess.run(argv, capture_output=True, text=True, timeout=t)\<close>
  gives back: a completed process with its return code, standard output and standard
  error, or an exception together with its \<^verbatim>\<open>str()\<close>.
\<close>

datatype run_outcome =
    Completed int string string
  | Raised exn string

text \<open>
  What a call \<^verbatim>\<open>subprocess.Popen(argv)\<close> gives back: it returns as soon as the child
  is started, or raises when the child cannot be started. \<open>Spawned x\<close> carries the exit
  status the child ends with later (\<open>None\<close> when it does not end).
\<close>

datatype popen_outcome =
    Spawned "int option"
  | Spawn_raised exn

section \<open>Status query\<close>

definition default_status :: pyval where
  "default_status =
     PyDict [(''running'', PyBool False), (''persistent'', PyBool False),
             (''camera'', PyStr ''''), (''device'', PyStr '''')]"

text \<open>
  The body of the \<^verbatim>\<open>try\<close> of \<^verbatim>\<open>_get_status\<close>, for the limits \<open>py\<close> of the
  interpreter at the call and the outcome \<open>r\<close> of \<^verbatim>\<open>subprocess.run\<close>. The return code
  and the standard error of a completed process are not read.
\<close>

definition get_status_body :: "limits \<Rightarrow> run_outcome \<Rightarrow> exn + pyval" where
  "get_status_body py r =
     (case r of
        Raised e m \<Rightarrow> Inl e
      | Completed returncode stdout stderr \<Rightarrow> json_loads py stdout)"

definition get_status :: "limits \<Rightarrow> run_outcome \<Rightarrow> exn + pyval" where
  "get_status py r =
     (case get_status_body py r of
        Inr v \<Rightarrow> Inr v
      | Inl e \<Rightarrow>
          if e = TimeoutExpired \<or> e = JSONDecodeError \<or> e = FileNotFoundError
          then Inr default_status
          else Inl e)"

text \<open>\<^verbatim>\<open>status.get(key, default)\<close>: only a dict has the method.\<close>

fun py_get :: "pyval \<Rightarrow> string \<Rightarrow> pyval \<Rightarrow> exn + pyval" where
  "py_get (PyDict d) k dflt = Inr (case map_of d k of None \<Rightarrow> dflt | Some v \<Rightarrow> v)"
| "py_get _ k dflt = Inl AttributeError"

section \<open>The indicator\<close>

record menu_item =
  label :: string
  sensitive :: bool

text \<open>
  The tray object, with the name of the icon it shows: \<^verbatim>\<open>self.indicator\<close> when
  \<^verbatim>\<open>USE_APPINDICATOR\<close> holds, \<^verbatim>\<open>self.status_icon\<close> otherwise.
\<close>

datatype tray = Indicator string | StatusIcon string

fun set_icon :: "string \<Rightarrow> tray \<Rightarrow> tray" where
  "set_icon icon (Indicator _) = Indicator icon"
| "set_icon icon (StatusIcon _) = StatusIcon icon"

text \<open>
  The attributes of a \<^verbatim>\<open>CameraRelaySystray\<close>. The three menu items exist once
  \<^verbatim>\<open>_build_menu\<close> has run (\<^verbatim>\<open>hasattr\<close>).
\<close>

record systray =
  running :: pyval
  persistent :: pyval
  tray :: tray
  item_toggle :: "menu_item option"
  item_persistent :: "menu_item option"
  item_status :: "menu_item option"

definition set_label :: "string \<Rightarrow> menu_item \<Rightarrow> menu_item" where
  "set_label l w = w\<lparr>label := l\<rparr>"

definition set_sensitive :: "bool \<Rightarrow> menu_item \<Rightarrow> menu_item" where
  "set_sensitive b w = w\<lparr>sensitive := b\<rparr>"

text \<open>What the handlers do besides changing the attributes.\<close>

datatype callback = Poll_status | Poll_status_once | Show_error string

datatype dialog_type = ERROR | WARNING

datatype effect =
    Popen "string list"
  | Idle_add callback
  | Timeout_add nat callback
  | Timeout_add_seconds nat callback
  | Message_dialog dialog_type string string
  | Start_thread string
  | Print_stderr string
  | Main_quit

definition build_menu :: "systray \<Rightarrow> systray" where
  "build_menu s =
     s\<lparr>item_toggle := Some \<lparr>label = ''Start Relay'', sensitive = True\<rparr>,
       item_persistent := Some \<lparr>label = ''Enable Persistent Mode'', sensitive = True\<rparr>,
       item_status := Some \<lparr>label = ''Status: checking...'', sensitive = False\<rparr>\<rparr>"

definition on_status_icon_popup :: "systray \<Rightarrow> systray" where
  "on_status_icon_popup s = build_menu s"

text \<open>
  \<^verbatim>\<open>_poll_status\<close>, for the limits of the interpreter and the outcome of the status
  query. The result is the new state and the value returned (\<^verbatim>\<open>True\<close>), or the
  exception that leaves the method; no attribute is assigned before an exception.
\<close>

definition poll_status :: "limits \<Rightarrow> run_outcome \<Rightarrow> systray \<Rightarrow> exn + systray \<times> bool" where
  "poll_status py r s =
     (case get_status py r of
        Inl e \<Rightarrow> Inl e
      | Inr status \<Rightarrow>
          (case py_get status ''running'' (PyBool False) of
             Inl e \<Rightarrow> Inl e
           | Inr run \<Rightarrow>
               (case py_get status ''persistent'' (PyBool False) of
                  Inl e \<Rightarrow> Inl e
                | Inr per \<Rightarrow>
                    Inr (s\<lparr>running := run,
                           persistent := per,
                           item_toggle :=
                             map_option (set_label (if truthy run then ''Stop Relay'' else ''Start Relay''))
                               (item_toggle s),
                           item_persistent :=
                             map_option
                               (set_label (if truthy per then ''Disable Persistent Mode''
                                           else ''Enable Persistent Mode''))
                               (item_persistent s),
                           item_status :=
                             map_option
                               (set_label (''Status: '' @ (if truthy run then ''RUNNING'' else ''STOPPED'')
                                           @ (if truthy per then '' (persistent)'' else [])))
                               (item_status s),
                           tray :=
                             set_icon (if truthy run then ''camera-video-symbolic''
                                       else ''camera-disabled-symbolic'')
                               (tray s)\<rparr>,
                         True))))"

text \<open>
  \<^verbatim>\<open>_on_toggle\<close>: the toggle item gets its transitional label and is made insensitive,
  and a thread is started that runs \<^verbatim>\<open>_run_action\<close> for the action.
\<close>

definition on_toggle :: "systray \<Rightarrow> systray \<times> effect list" where
  "on_toggle s =
     (let action = (if truthy (running s) then ''stop'' else ''start'')
      in (s\<lparr>item_toggle :=
              map_option
                (\<lambda>w. set_sensitive False
                        (set_label (if truthy (running s) then ''Stopping...'' else ''Starting...'') w))
                (item_toggle s)\<rparr>,
          [Start_thread action]))"

text \<open>
  \<^verbatim>\<open>_run_action\<close>, on the worker thread, for the outcome of
  \<^verbatim>\<open>subprocess.run([RELAY_CMD, action], capture_output=True, text=True, timeout=15)\<close>.
\<close>

definition run_action :: "string \<Rightarrow> run_outcome \<Rightarrow> effect list" where
  "run_action action r =
     (case r of
        Completed returncode stdout stderr \<Rightarrow>
          if returncode \<noteq> 0 then
            [Idle_add (Show_error (''Failed to '' @ action @ '' relay:'' @ [CHR 0x0A, CHR 0x0A]
                                   @ str_or (strip stderr) (str_or (strip stdout) ''Unknown error'')))]
          else []
      | Raised e m \<Rightarrow>
          if e = TimeoutExpired
          then [Idle_add (Show_error (''Timed out trying to '' @ action @ '' relay''))]
          else [Idle_add (Show_error (''Error: '' @ m))])
     @ [Idle_add Poll_status_once]"

text \<open>\<^verbatim>\<open>_poll_status_once\<close>\<close>

definition poll_status_once :: "limits \<Rightarrow> run_outcome \<Rightarrow> systray \<Rightarrow> exn + systray \<times> bool" where
  "poll_status_once py r s =
     (case poll_status py r s of
        Inl e \<Rightarrow> Inl e
      | Inr (s', _) \<Rightarrow>
          Inr (s'\<lparr>item_toggle := map_option (set_sensitive True) (item_toggle s')\<rparr>, False))"

text \<open>\<^verbatim>\<open>_show_error\<close>\<close>

definition show_error :: "string \<Rightarrow> effect list \<times> bool" where
  "show_error message = ([Message_dialog ERROR ''Camera Relay Error'' message], False)"

datatype response = OK | CANCEL | DELETE_EVENT

definition persistent_warning :: string where
  "persistent_warning =
     ''This will keep the camera relay running at all times after login.'' @ [CHR 0x0A, CHR 0x0A]
     @ ''Battery impact: ~2-3% extra per charge cycle'' @ [CHR 0x0A]
     @ ''CPU usage: ~2-3% while active'' @ [CHR 0x0A, CHR 0x0A]
     @ ''The relay will auto-start on every login and run continuously ''
     @ ''in the background. You can disable this later from this menu ''
     @ ''or by running:'' @ [CHR 0x0A, CHR 0x0A]
     @ ''  camera-relay disable-persistent''"

text \<open>
  \<^verbatim>\<open>_show_persistent_warning\<close>, for the button the user answers the dialog with and
  the outcome of \<^verbatim>\<open>Popen\<close>: the effects in order, and the exception that leaves the
  method, if any.
\<close>

definition show_persistent_warning :: "response \<Rightarrow> popen_outcome \<Rightarrow> effect list \<times> exn option" where
  "show_persistent_warning resp p =
     (if resp = OK then
        (case p of
           Spawned _ \<Rightarrow>
             ([Message_dialog WARNING ''Enable Persistent Mode?'' persistent_warning,
               Popen [RELAY_CMD, ''enable-persistent'', ''--yes''],
               Timeout_add 1000 Poll_status], None)
         | Spawn_raised e \<Rightarrow>
             ([Message_dialog WARNING ''Enable Persistent Mode?'' persistent_warning,
               Popen [RELAY_CMD, ''enable-persistent'', ''--yes'']], Some e))
      else ([Message_dialog WARNING ''Enable Persistent Mode?'' persistent_warning], None))"

text \<open>\<^verbatim>\<open>_on_persistent_toggle\<close>\<close>

definition on_persistent_toggle ::
  "response \<Rightarrow> popen_outcome \<Rightarrow> systray \<Rightarrow> effect list \<times> exn option" where
  "on_persistent_toggle resp p s =
     (if truthy (persistent s) then
        (case p of
           Spawned _ \<Rightarrow>
             ([Popen [RELAY_CMD, ''disable-persistent''], Timeout_add 1000 Poll_status], None)
         | Spawn_raised e \<Rightarrow> ([Popen [RELAY_CMD, ''disable-persistent'']], Some e))
      else show_persistent_warning resp p)"

definition on_quit :: "effect list" where
  "on_quit = [Main_quit]"

text \<open>
  \<^verbatim>\<open>__init__\<close> up to the first status query, for the value of
  \<^verbatim>\<open>USE_APPINDICATOR\<close>: with an indicator the menu is built at once, with a status
  icon it is built when the icon is clicked (\<^verbatim>\<open>_on_status_icon_popup\<close>).
\<close>

definition new_systray :: "bool \<Rightarrow> systray \<times> effect list" where
  "new_systray use_appindicator =
     (let s = \<lparr>running = PyBool False, persistent = PyBool False,
               tray = (if use_appindicator then Indicator ''camera-video-symbolic''
                       else StatusIcon ''camera-video-symbolic''),
               item_toggle = None, item_persistent = None, item_status = None\<rparr>
      in if use_appindicator then (build_menu s, [])
         else (s, [Print_stderr (''camera-relay-systray: AppIndicator3 not available. ''
                                 @ ''Install gnome-shell-extension-appindicator (GNOME) or ''
                                 @ ''libappindicator-gtk3 (KDE/other).''),
                   Print_stderr ''camera-relay-systray: Falling back to Gtk.StatusIcon.'']))"

text \<open>
  \<^verbatim>\<open>__init__\<close>, for the value of \<^verbatim>\<open>USE_APPINDICATOR\<close>, the limits of the
  interpreter and the outcome of the first status query: the first poll, then the periodic
  one.
\<close>

definition init :: "bool \<Rightarrow> limits \<Rightarrow> run_outcome \<Rightarrow> exn + systray \<times> effect list" where
  "init use_appindicator py r =
     (case poll_status py r (fst (new_systray use_appindicator)) of
        Inl e \<Rightarrow> Inl e
      | Inr (s, _) \<Rightarrow>
          Inr (s, snd (new_systray use_appindicator)
                  @ [Timeout_add_seconds POLL_INTERVAL Poll_status]))"

section \<open>The main loop\<close>

text \<open>
  \<^verbatim>\<open>GLib.idle_add\<close>, \<^verbatim>\<open>GLib.timeout_add\<close> and \<^verbatim>\<open>GLib.timeout_add_seconds\<close>
  attach a source to the main loop. When a source is dispatched its callback is called;
  the source stays attached when the callback returns \<^verbatim>\<open>True\<close>, and is removed when
  the callback returns \<^verbatim>\<open>False\<close> or raises.
\<close>

datatype source = Idle callback | Timeout nat callback | Timeout_seconds nat callback

fun source_callback :: "source \<Rightarrow> callback" where
  "source_callback (Idle cb) = cb"
| "source_callback (Timeout ms cb) = cb"
| "source_callback (Timeout_seconds n cb) = cb"

record mainloop =
  app :: systray
  sources :: "source list"
  trace :: "effect list"

fun attach :: "effect \<Rightarrow> source list" where
  "attach (Idle_add cb) = [Idle cb]"
| "attach (Timeout_add ms cb) = [Timeout ms cb]"
| "attach (Timeout_add_seconds n cb) = [Timeout_seconds n cb]"
| "attach _ = []"

text \<open>The effects are recorded in order, and the sources they add are attached.\<close>

definition perform :: "effect list \<Rightarrow> mainloop \<Rightarrow> mainloop" where
  "perform es ml = ml\<lparr>sources := sources ml @ concat (map attach es), trace := trace ml @ es\<rparr>"

text \<open>
  A call of a callback on the main thread; \<open>py\<close> are the limits of the interpreter at
  the call and \<open>r\<close> is the outcome of the status query the callback makes, if it makes
  one.
\<close>

fun invoke ::
  "callback \<Rightarrow> limits \<Rightarrow> run_outcome \<Rightarrow> systray \<Rightarrow> (exn + systray \<times> bool) \<times> effect list" where
  "invoke Poll_status py r s = (poll_status py r s, [])"
| "invoke Poll_status_once py r s = (poll_status_once py r s, [])"
| "invoke (Show_error message) py r s = (Inr (s, snd (show_error message)), fst (show_error message))"

definition detach :: "nat \<Rightarrow> source list \<Rightarrow> source list" where
  "detach i xs = take i xs @ drop (Suc i) xs"

text \<open>The main loop dispatches its \<open>i\<close>-th source.\<close>

definition dispatch :: "nat \<Rightarrow> limits \<Rightarrow> run_outcome \<Rightarrow> mainloop \<Rightarrow> mainloop" where
  "dispatch i py r ml =
     (if i < length (sources ml) then
        (case invoke (source_callback (sources ml ! i)) py r (app ml) of
           (Inr (s', keep), es) \<Rightarrow>
             perform es (ml\<lparr>app := s',
                            sources := (if keep then sources ml else detach i (sources ml))\<rparr>)
         | (Inl e, es) \<Rightarrow> perform es (ml\<lparr>sources := detach i (sources ml)\<rparr>))
      else ml)"

text \<open>The user activates the toggle item.\<close>

definition activate_toggle :: "mainloop \<Rightarrow> mainloop" where
  "activate_toggle ml = (let (s', es) = on_toggle (app ml) in perform es (ml\<lparr>app := s'\<rparr>))"

text \<open>The worker thread started by \<^verbatim>\<open>_on_toggle\<close> runs to its end.\<close>

definition worker :: "string \<Rightarrow> run_outcome \<Rightarrow> mainloop \<Rightarrow> mainloop" where
  "worker action r ml = perform (run_action action r) ml"

text \<open>The user activates the persistent-mode item.\<close>

definition activate_persistent :: "response \<Rightarrow> popen_outcome \<Rightarrow> mainloop \<Rightarrow> mainloop" where
  "activate_persistent resp p ml = perform (fst (on_persistent_toggle resp p (app ml))) ml"

text \<open>\<^verbatim>\<open>app = CameraRelaySystray()\<close>, before \<^verbatim>\<open>Gtk.main()\<close>.\<close>

definition start_app :: "bool \<Rightarrow> limits \<Rightarrow> run_outcome \<Rightarrow> exn + mainloop" where
  "start_app use_appindicator py r =
     (case init use_appindicator py r of
        Inl e \<Rightarrow> Inl e
      | Inr (s, es) \<Rightarrow> Inr (perform es \<lparr>app = s, sources = [], trace = []\<rparr>))"

section \<open>Start of the program\<close>

text \<open>The environment variables the module reads with \<^verbatim>\<open>os.environ.get\<close>.\<close>

record environ =
  DISPLAY :: "string option"
  WAYLAND_DISPLAY :: "string option"
  XDG_RUNTIME_DIR :: "string option"

text \<open>\<^verbatim>\<open>not os.environ.get(name)\<close>: the variable is unset or empty.\<close>

definition not_set :: "string option \<Rightarrow> bool" where
  "not_set v = (case v of None \<Rightarrow> True | Some x \<Rightarrow> x = [])"

text \<open>\<^verbatim>\<open>os.path.join(a, b)\<close> for a relative \<^verbatim>\<open>b\<close>.\<close>

definition path_join :: "string \<Rightarrow> string \<Rightarrow> string" where
  "path_join a b = (if a = [] \<or> last a = CHR ''/'' then a @ b else a @ ''/'' @ b)"

definition LOCK_FILE :: "environ \<Rightarrow> string" where
  "LOCK_FILE env =
     path_join (case XDG_RUNTIME_DIR env of None \<Rightarrow> ''/tmp'' | Some d \<Rightarrow> d)
       ''camera-relay-systray.lock''"

text \<open>
  How the statements before the imports of the toolkit end: \<^verbatim>\<open>sys.exit(n)\<close>, an
  exception that nothing catches, or going on to the rest of the module.
\<close>

datatype startup = Exit int | Uncaught exn | Proceed

text \<open>
  The module up to the lock, for the environment, the exception raised by
  \<^verbatim>\<open>open(LOCK_FILE, "w")\<close> if any and the exception raised by \<^verbatim>\<open>fcntl.flock\<close> if any:
  the lines printed on standard error, and how it ends.
\<close>

definition startup :: "environ \<Rightarrow> exn option \<Rightarrow> exn option \<Rightarrow> string list \<times> startup" where
  "startup env open_raises flock_raises =
     (if not_set (DISPLAY env) \<and> not_set (WAYLAND_DISPLAY env)
      then ([''camera-relay-systray: No display detected, exiting.''], Exit 0)
      else
        (case open_raises of
           Some e \<Rightarrow> ([], Uncaught e)
         | None \<Rightarrow>
             (case flock_raises of
                None \<Rightarrow> ([], Proceed)
              | Some e \<Rightarrow>
                  if is_OSError e
                  then ([''camera-relay-systray: Another instance is already running.''], Exit 0)
                  else ([], Uncaught e))))"

section \<open>Kinds of effects\<close>

text \<open>An external process is started.\<close>

fun is_popen :: "effect \<Rightarrow> bool" where
  "is_popen (Popen argv) = True"
| "is_popen _ = False"

text \<open>A dialog is shown; an error dialog is shown.\<close>

fun is_dialog :: "effect \<Rightarrow> bool" where
  "is_dialog (Message_dialog t text secondary) = True"
| "is_dialog _ = False"

fun is_error_dialog :: "effect \<Rightarrow> bool" where
  "is_error_dialog (Message_dialog ERROR text secondary) = True"
| "is_error_dialog _ = False"

section \<open>The scanner consumes its text\<close>

text \<open>
  Every scan that succeeds leaves less text than it was given. With this, the number of
  calls that \<open>json_loads\<close> allows is never used up, so that \<open>json_loads\<close> on every text
  is the result of the scan itself.
\<close>

lemma prepend_ex: "(\<exists>a. prepend p x = Some (a, r)) \<longleftrightarrow> (\<exists>a. x = Some (a, r))"
  by (cases x) (auto simp: prepend_def)

lemma scanstring_plain:
  "c \<noteq> CHR 0x22 \<Longrightarrow> c \<noteq> CHR 0x5C \<Longrightarrow> \<exists>a. scanstring (c # cs) = Some (a, r) \<Longrightarrow>
     \<exists>a. scanstring cs = Some (a, r)"
  by (simp add: prepend_ex split: if_splits)

lemma scanstring_escape:
  "e \<noteq> CHR ''u'' \<Longrightarrow> \<exists>a. scanstring (CHR 0x5C # e # cs) = Some (a, r) \<Longrightarrow>
     \<exists>a. scanstring cs = Some (a, r)"
  by (simp add: prepend_ex split: option.splits)

lemma scanstring_unicode:
  "\<exists>a. scanstring (CHR 0x5C # CHR ''u'' # cs) = Some (a, r) \<Longrightarrow>
     (\<exists>a. scanstring (drop 4 cs) = Some (a, r)) \<or> (\<exists>a. scanstring (drop 10 cs) = Some (a, r))"
  by (simp add: prepend_ex split: option.splits list.splits if_splits prod.splits)

lemma scanstring_length_aux:
  "\<exists>a. scanstring s = Some (a, r) \<Longrightarrow> length r < length s"
proof (induction "length s" arbitrary: s r rule: less_induct)
  case less
  have ih: "\<And>t. length t < length s \<Longrightarrow> \<exists>a. scanstring t = Some (a, r) \<Longrightarrow> length r < length t"
    using less.hyps by blast
  show ?case
  proof (cases s)
    case Nil
    with less.prems show ?thesis by simp
  next
    case (Cons c cs)
    from less.prems have p: "\<exists>a. scanstring (c # cs) = Some (a, r)"
      unfolding Cons .
    show ?thesis
    proof (cases "c = CHR 0x22")
      case True
      with p Cons show ?thesis by simp
    next
      case q: False
      show ?thesis
      proof (cases "c = CHR 0x5C")
        case False
        have "length cs < length s" using Cons by simp
        from ih [OF this scanstring_plain [OF q False p]] Cons show ?thesis by simp
      next
        case b: True
        show ?thesis
        proof (cases cs)
          case Nil
          with p b show ?thesis by simp
        next
          case c2: (Cons e cs')
          from p have p': "\<exists>a. scanstring (CHR 0x5C # e # cs') = Some (a, r)"
            unfolding b c2 .
          show ?thesis
          proof (cases "e = CHR ''u''")
            case False
            have "length cs' < length s" using Cons c2 by simp
            from ih [OF this scanstring_escape [OF False p']] Cons c2 show ?thesis by simp
          next
            case True
            from p' have "\<exists>a. scanstring (CHR 0x5C # CHR ''u'' # cs') = Some (a, r)"
              unfolding True .
            from scanstring_unicode [OF this]
            consider "\<exists>a. scanstring (drop 4 cs') = Some (a, r)"
              | "\<exists>a. scanstring (drop 10 cs') = Some (a, r)"
              by blast
            then show ?thesis
            proof cases
              case 1
              have "length (drop 4 cs') < length s" using Cons c2 by simp
              from ih [OF this 1] Cons c2 show ?thesis by simp
            next
              case 2
              have "length (drop 10 cs') < length s" using Cons c2 by simp
              from ih [OF this 2] Cons c2 show ?thesis by simp
            qed
          qed
        qed
      qed
    qed
  qed
qed

lemma scanstring_length: "scanstring s = Some (str, r) \<Longrightarrow> length r < length s"
  using scanstring_length_aux [of s r] by simp

lemma scan_int_part_length: "scan_int_part s = Some (ds, r) \<Longrightarrow> length r < length s"
  by (auto simp: scan_int_part_def less_Suc_eq_le length_dropWhile_le split: list.splits if_splits)

lemma scan_frac_length: "scan_frac s = (fs, r) \<Longrightarrow> length r \<le> length s"
  by (auto simp: scan_frac_def le_SucI length_dropWhile_le split: list.splits if_splits)

lemma scan_exp_length: "scan_exp s = (ex, r) \<Longrightarrow> length r \<le> length s"
  by (auto simp: scan_exp_def le_SucI length_dropWhile_le split: list.splits if_splits)

lemma skip_ws_length: "length (skip_ws s) \<le> length s"
  by (simp add: skip_ws_def length_dropWhile_le)

lemma skip_ws_Cons: "skip_ws s = q # r \<Longrightarrow> length r < length s"
  using skip_ws_length [of s] by simp

lemma scan_number_length: "scan_number m s = Some (Ok v r) \<Longrightarrow> length r < length s"
proof -
  assume a: "scan_number m s = Some (Ok v r)"
  obtain neg s1 where n: "(case s of [] \<Rightarrow> (False, s) | c # r \<Rightarrow> if c = CHR ''-'' then (True, r) else (False, s)) = (neg, s1)"
    by (cases "(case s of [] \<Rightarrow> (False, s) | c # r \<Rightarrow> if c = CHR ''-'' then (True, r) else (False, s))") auto
  have l1: "length s1 \<le> length s"
    using n by (auto split: list.splits if_splits)
  from a n obtain ds s2 where i: "scan_int_part s1 = Some (ds, s2)"
    by (auto simp: scan_number_def Let_def split: option.splits)
  obtain fs s3 where f: "scan_frac s2 = (fs, s3)" by (cases "scan_frac s2") auto
  obtain ex s4 where e: "scan_exp s3 = (ex, s4)" by (cases "scan_exp s3") auto
  from a n i f e have "r = s4"
    by (auto simp: scan_number_def Let_def split: if_splits)
  with scan_int_part_length [OF i] scan_frac_length [OF f] scan_exp_length [OF e] l1
  show ?thesis by simp
qed

lemma scan_number_not_Stop: "scan_number m s \<noteq> Some Stop"
  by (auto simp: scan_number_def Let_def split: option.splits prod.splits if_splits)

lemma scan_once_consumes_step:
  assumes o: "\<And>d m s acc v r. json_object n d m s acc = Ok v r \<Longrightarrow> length r < length s"
    and a: "\<And>d m s acc v r. json_array n d m s acc = Ok v r \<Longrightarrow> length r < length s"
    and p: "scan_once (Suc n) d m s = Ok v r"
  shows "length r < length s"
proof (cases s)
  case Nil
  with p show ?thesis by simp
next
  case (Cons c cs)
  show ?thesis
    using p Cons
    by (auto simp: starts_with_def split: if_splits option.splits nat.splits list.splits
        dest!: scanstring_length skip_ws_Cons scan_number_length o a)
qed

lemma json_array_consumes_step:
  assumes so: "\<And>d m s v r. scan_once n d m s = Ok v r \<Longrightarrow> length r < length s"
    and a: "\<And>d m s acc v r. json_array n d m s acc = Ok v r \<Longrightarrow> length r < length s"
    and p: "json_array (Suc n) d m s acc = Ok v r"
  shows "length r < length s"
proof -
  have a': "\<And>d m t acc v r. json_array n d m (skip_ws t) acc = Ok v r \<Longrightarrow> length r < length t"
    using a skip_ws_length by (meson less_le_trans)
  show ?thesis
    using p
    by (auto split: if_splits scan.splits list.splits dest!: so skip_ws_Cons a')
qed

lemma json_object_consumes_step:
  assumes so: "\<And>d m s v r. scan_once n d m s = Ok v r \<Longrightarrow> length r < length s"
    and o: "\<And>d m s acc v r. json_object n d m s acc = Ok v r \<Longrightarrow> length r < length s"
    and p: "json_object (Suc n) d m s acc = Ok v r"
  shows "length r < length s"
proof -
  have so': "\<And>d m t v r. scan_once n d m (skip_ws t) = Ok v r \<Longrightarrow> length r < length t"
    using so skip_ws_length by (meson less_le_trans)
  show ?thesis
    using p
    by (auto split: if_splits scan.splits list.splits option.splits
        dest!: so' skip_ws_Cons o scanstring_length)
qed

lemma scans_consume:
  "(\<forall>d m s v r. scan_once n d m s = Ok v r \<longrightarrow> length r < length s)
   \<and> (\<forall>d m s acc v r. json_array n d m s acc = Ok v r \<longrightarrow> length r < length s)
   \<and> (\<forall>d m s acc v r. json_object n d m s acc = Ok v r \<longrightarrow> length r < length s)"
proof (induction n)
  case 0
  show ?case by simp
next
  case (Suc n)
  from Suc have so: "\<And>d m s v r. scan_once n d m s = Ok v r \<Longrightarrow> length r < length s"
    and a: "\<And>d m s acc v r. json_array n d m s acc = Ok v r \<Longrightarrow> length r < length s"
    and o: "\<And>d m s acc v r. json_object n d m s acc = Ok v r \<Longrightarrow> length r < length s"
    by blast+
  have 1: "length r < length s" if "scan_once (Suc n) d m s = Ok v r" for d m s v r
    by (rule scan_once_consumes_step [of n, OF _ _ that]) (erule o, erule a)
  have 2: "length r < length s" if "json_array (Suc n) d m s acc = Ok v r" for d m s acc v r
    by (rule json_array_consumes_step [of n, OF _ _ that]) (erule so, erule a)
  have 3: "length r < length s" if "json_object (Suc n) d m s acc = Ok v r" for d m s acc v r
    by (rule json_object_consumes_step [of n, OF _ _ that]) (erule so, erule o)
  show ?case
    using 1 2 3 by blast
qed

lemma scan_once_consumes: "scan_once n d m s = Ok v r \<Longrightarrow> length r < length s"
  using scans_consume by blast

lemma scan_once_bound_step:
  assumes o: "\<And>d m s acc. json_object n d m s acc = Stop \<Longrightarrow> n < 2 * length s + 1"
    and a: "\<And>d m s acc. json_array n d m s acc = Stop \<Longrightarrow> n < 2 * length s + 2"
    and p: "scan_once (Suc n) d m s = Stop"
  shows "Suc n < 2 * length s + 1"
proof (cases s)
  case Nil
  with p show ?thesis by simp
next
  case (Cons c cs)
  show ?thesis
    using p Cons scan_number_not_Stop [of m s]
    by (auto split: if_splits option.splits nat.splits list.splits
        dest!: skip_ws_Cons o a)
qed

lemma json_array_bound_step:
  assumes so: "\<And>d m s. scan_once n d m s = Stop \<Longrightarrow> n < 2 * length s + 1"
    and a: "\<And>d m s acc. json_array n d m s acc = Stop \<Longrightarrow> n < 2 * length s + 2"
    and p: "json_array (Suc n) d m s acc = Stop"
  shows "Suc n < 2 * length s + 2"
proof -
  have a': "\<And>d m t acc. json_array n d m (skip_ws t) acc = Stop \<Longrightarrow> n < 2 * length t + 2"
  proof -
    fix d m t acc assume "json_array n d m (skip_ws t) acc = Stop"
    from a [OF this] skip_ws_length [of t] show "n < 2 * length t + 2" by simp
  qed
  show ?thesis
    using p
    by (auto split: if_splits scan.splits list.splits
        dest!: so skip_ws_Cons a' scan_once_consumes)
qed

lemma json_object_bound_step:
  assumes so: "\<And>d m s. scan_once n d m s = Stop \<Longrightarrow> n < 2 * length s + 1"
    and o: "\<And>d m s acc. json_object n d m s acc = Stop \<Longrightarrow> n < 2 * length s + 1"
    and p: "json_object (Suc n) d m s acc = Stop"
  shows "Suc n < 2 * length s + 1"
proof -
  have so': "\<And>d m t. scan_once n d m (skip_ws t) = Stop \<Longrightarrow> n < 2 * length t + 1"
  proof -
    fix d m t assume "scan_once n d m (skip_ws t) = Stop"
    from so [OF this] skip_ws_length [of t] show "n < 2 * length t + 1" by simp
  qed
  have c': "\<And>d m t v r. scan_once n d m (skip_ws t) = Ok v r \<Longrightarrow> length r < length t"
    using scan_once_consumes skip_ws_length by (meson less_le_trans)
  show ?thesis
    using p
    by (auto split: if_splits scan.splits list.splits option.splits
        dest!: so' c' skip_ws_Cons o scanstring_length)
qed

lemma scans_bound:
  "(\<forall>d m s. scan_once n d m s = Stop \<longrightarrow> n < 2 * length s + 1)
   \<and> (\<forall>d m s acc. json_array n d m s acc = Stop \<longrightarrow> n < 2 * length s + 2)
   \<and> (\<forall>d m s acc. json_object n d m s acc = Stop \<longrightarrow> n < 2 * length s + 1)"
proof (induction n)
  case 0
  show ?case by simp
next
  case (Suc n)
  from Suc have so: "\<And>d m s. scan_once n d m s = Stop \<Longrightarrow> n < 2 * length s + 1"
    and a: "\<And>d m s acc. json_array n d m s acc = Stop \<Longrightarrow> n < 2 * length s + 2"
    and o: "\<And>d m s acc. json_object n d m s acc = Stop \<Longrightarrow> n < 2 * length s + 1"
    by blast+
  have 1: "Suc n < 2 * length s + 1" if "scan_once (Suc n) d m s = Stop" for d m s
    by (rule scan_once_bound_step [of n, OF _ _ that]) (erule o, erule a)
  have 2: "Suc n < 2 * length s + 2" if "json_array (Suc n) d m s acc = Stop" for d m s acc
    by (rule json_array_bound_step [of n, OF _ _ that]) (erule so, erule a)
  have 3: "Suc n < 2 * length s + 1" if "json_object (Suc n) d m s acc = Stop" for d m s acc
    by (rule json_object_bound_step [of n, OF _ _ that]) (erule so, erule o)
  show ?case
    using 1 2 3 by blast
qed

lemma scan_once_bound: "2 * length s + 1 \<le> n \<Longrightarrow> scan_once n d m s \<noteq> Stop"
  using scans_bound [of n] by (auto simp: not_less [symmetric])

lemma json_loads_bound:
  "scan_once (2 * length s + 2) (nesting py) (max_str_digits py) (skip_ws s) \<noteq> Stop"
proof (rule scan_once_bound)
  show "2 * length (skip_ws s) + 1 \<le> 2 * length s + 2"
    using skip_ws_length [of s] by simp
qed

section \<open>The limits of the interpreter are met\<close>







section \<open>The decoder and \<^verbatim>\<open>strip\<close> on concrete texts\<close>


lemma loads_running: \<open>json_loads default_limits ''{"running": true, "persistent": true}'' =
    Inr (PyDict [(''running'', PyBool True), (''persistent'', PyBool True)])\<close>
  by code_simp

lemma loads_only_running: \<open>json_loads default_limits ''{"running": true}'' = Inr (PyDict [(''running'', PyBool True)])\<close>
  by code_simp

lemma loads_partial: \<open>json_loads default_limits ''{"persistent": true}'' = Inr (PyDict [(''persistent'', PyBool True)])\<close>
  by code_simp

lemma loads_empty_object: "json_loads default_limits ''{}'' = Inr (PyDict [])"
  by code_simp

lemma loads_null: "json_loads default_limits ''null'' = Inr PyNone"
  by code_simp

lemma whitespace_bytes:
  "whitespace =
     [[CHR 0x09], [CHR 0x0A], [CHR 0x0B], [CHR 0x0C], [CHR 0x0D], [CHR 0x1C], [CHR 0x1D],
      [CHR 0x1E], [CHR 0x1F], [CHR 0x20], [CHR 0xC2, CHR 0x85], [CHR 0xC2, CHR 0xA0],
      [CHR 0xE1, CHR 0x9A, CHR 0x80],
      [CHR 0xE2, CHR 0x80, CHR 0x80], [CHR 0xE2, CHR 0x80, CHR 0x81], [CHR 0xE2, CHR 0x80, CHR 0x82],
      [CHR 0xE2, CHR 0x80, CHR 0x83], [CHR 0xE2, CHR 0x80, CHR 0x84], [CHR 0xE2, CHR 0x80, CHR 0x85],
      [CHR 0xE2, CHR 0x80, CHR 0x86], [CHR 0xE2, CHR 0x80, CHR 0x87], [CHR 0xE2, CHR 0x80, CHR 0x88],
      [CHR 0xE2, CHR 0x80, CHR 0x89], [CHR 0xE2, CHR 0x80, CHR 0x8A],
      [CHR 0xE2, CHR 0x80, CHR 0xA8], [CHR 0xE2, CHR 0x80, CHR 0xA9], [CHR 0xE2, CHR 0x80, CHR 0xAF],
      [CHR 0xE2, CHR 0x81, CHR 0x9F], [CHR 0xE3, CHR 0x80, CHR 0x80]]"
  by (simp add: whitespace_def utf8_def char_of_def bit_Suc_0_iff)

lemma strip_empty: "strip [] = []"
  by (simp add: strip_def lstrip_def rstrip_def)

lemma strip_camera_busy: "strip (''camera busy'' @ [CHR 0x0A]) = ''camera busy''"
  by (simp add: strip_def lstrip_def rstrip_def whitespace_bytes lead_len_def starts_with_def)

lemma strip_starting: "strip (''starting relay'' @ [CHR 0x0A]) = ''starting relay''"
  by (simp add: strip_def lstrip_def rstrip_def whitespace_bytes lead_len_def starts_with_def)

lemma strip_not_running: "strip (''relay is not running'' @ [CHR 0x0A]) = ''relay is not running''"
  by (simp add: strip_def lstrip_def rstrip_def whitespace_bytes lead_len_def starts_with_def)

section \<open>The status query and the poll\<close>



lemma get_status_empty_object: "get_status default_limits (Completed rc ''{}'' err) = Inr (PyDict [])"
  by (simp add: get_status_def get_status_body_def loads_empty_object)

lemma get_status_null: "get_status default_limits (Completed rc ''null'' err) = Inr PyNone"
  by (simp add: get_status_def get_status_body_def loads_null)


lemma poll_status_dict:
  assumes "get_status py r = Inr (PyDict d)"
  shows "poll_status py r s =
           Inr (s\<lparr>running := (case map_of d ''running'' of None \<Rightarrow> PyBool False | Some v \<Rightarrow> v),
                  persistent := (case map_of d ''persistent'' of None \<Rightarrow> PyBool False | Some v \<Rightarrow> v),
                  item_toggle :=
                    map_option
                      (set_label (if truthy (case map_of d ''running'' of None \<Rightarrow> PyBool False | Some v \<Rightarrow> v)
                                  then ''Stop Relay'' else ''Start Relay''))
                      (item_toggle s),
                  item_persistent :=
                    map_option
                      (set_label (if truthy (case map_of d ''persistent'' of None \<Rightarrow> PyBool False | Some v \<Rightarrow> v)
                                  then ''Disable Persistent Mode'' else ''Enable Persistent Mode''))
                      (item_persistent s),
                  item_status :=
                    map_option
                      (set_label (''Status: ''
                         @ (if truthy (case map_of d ''running'' of None \<Rightarrow> PyBool False | Some v \<Rightarrow> v)
                            then ''RUNNING'' else ''STOPPED'')
                         @ (if truthy (case map_of d ''persistent'' of None \<Rightarrow> PyBool False | Some v \<Rightarrow> v)
                            then '' (persistent)'' else [])))
                      (item_status s),
                  tray :=
                    set_icon (if truthy (case map_of d ''running'' of None \<Rightarrow> PyBool False | Some v \<Rightarrow> v)
                              then ''camera-video-symbolic'' else ''camera-disabled-symbolic'')
                      (tray s)\<rparr>, True)"
  using assms by (simp add: poll_status_def)


lemma poll_status_uncaught:
  assumes "e \<noteq> TimeoutExpired" and "e \<noteq> JSONDecodeError" and "e \<noteq> FileNotFoundError"
  shows "poll_status py (Raised e m) s = Inl e"
  using assms by (simp add: poll_status_def get_status_def get_status_body_def)

text \<open>\<^verbatim>\<open>_poll_status\<close> returns \<^verbatim>\<open>True\<close> whenever it returns.\<close>

lemma poll_status_keeps_polling:
  assumes "poll_status py r s = Inr (s', k)"
  shows "k"
  using assms by (auto simp: poll_status_def split: sum.splits)









text \<open>
  C10. When the standard output of the status query decodes to a JSON object, the poll
  returns normally, and \<^verbatim>\<open>self.running\<close> and \<^verbatim>\<open>self.persistent\<close> are each the value
  stored under their own key, or \<^verbatim>\<open>False\<close> when that key is missing, whether or not the
  other key is present.
\<close>

theorem missing_keys_default_to_false:
  assumes "json_loads py out = Inr (PyDict d)"
  shows "\<exists>s'. poll_status py (Completed rc out err) s = Inr (s', True)
           \<and> running s' = (case map_of d ''running'' of None \<Rightarrow> PyBool False | Some v \<Rightarrow> v)
           \<and> persistent s' = (case map_of d ''persistent'' of None \<Rightarrow> PyBool False | Some v \<Rightarrow> v)"
proof -
  have g: "get_status py (Completed rc out err) = Inr (PyDict d)"
    using assms by (simp add: get_status_def get_status_body_def)
  show ?thesis
    by (simp add: poll_status_dict [OF g])
qed

text \<open>
  The theorem at the output \<^verbatim>\<open>{"persistent": true}\<close>: \<^verbatim>\<open>running\<close> is missing and
  becomes \<^verbatim>\<open>False\<close>, \<^verbatim>\<open>persistent\<close> is present and is honoured.
\<close>

theorem missing_keys_default_to_false_witness:
  \<open>json_loads default_limits ''{"persistent": true}'' = Inr (PyDict [(''persistent'', PyBool True)])
   \<and> (\<exists>s'. poll_status default_limits (Completed 0 ''{"persistent": true}'' '''') (fst (new_systray True)) = Inr (s', True)
          \<and> running s' = PyBool False \<and> persistent s' = PyBool True)\<close>
  using loads_partial
    missing_keys_default_to_false [OF loads_partial, of 0 "[]" "fst (new_systray True)"]
  by simp

text \<open>
  C6. After every poll that returns, the toggle item (when the menu has been built) is
  labelled \<^verbatim>\<open>Stop Relay\<close> if and only if \<^verbatim>\<open>self.running\<close> is true in the sense of
  Python's truth value testing, and \<^verbatim>\<open>Start Relay\<close> otherwise; when \<^verbatim>\<open>self.running\<close>
  is a \<^verbatim>\<open>bool\<close> the label is \<^verbatim>\<open>Stop Relay\<close> if and only if it is \<^verbatim>\<open>True\<close>.
\<close>

theorem toggle_label_follows_running:
  assumes "poll_status py r s = Inr (s', k)"
  shows "map_option label (item_toggle s') =
           map_option (\<lambda>w. if truthy (running s') then ''Stop Relay'' else ''Start Relay'') (item_toggle s)
         \<and> (item_toggle s \<noteq> None \<longrightarrow>
              (map_option label (item_toggle s') = Some ''Stop Relay'') = truthy (running s')
              \<and> (map_option label (item_toggle s') = Some ''Start Relay'') = (\<not> truthy (running s')))
         \<and> (\<forall>b. running s' = PyBool b \<and> item_toggle s \<noteq> None \<longrightarrow>
              (map_option label (item_toggle s') = Some ''Stop Relay'') = b)"
  using assms
  by (auto simp: poll_status_def set_label_def option.map_comp comp_def split: sum.splits)

text \<open>
  The theorem at a poll that reads \<^verbatim>\<open>{"running": true}\<close> and at a poll that reads
  \<^verbatim>\<open>{}\<close>, both on the indicator as built.
\<close>

theorem toggle_label_follows_running_witness:
  \<open>(\<exists>s'. poll_status default_limits (Completed 0 ''{"running": true}'' '''') (fst (new_systray True)) = Inr (s', True)
        \<and> running s' = PyBool True
        \<and> map_option label (item_toggle s') = Some ''Stop Relay'')
   \<and> (\<exists>s'. poll_status default_limits (Completed 0 ''{}'' '''') (fst (new_systray True)) = Inr (s', True)
        \<and> running s' = PyBool False
        \<and> map_option label (item_toggle s') = Some ''Start Relay'')\<close>
proof -
  have g1: \<open>get_status default_limits (Completed 0 ''{"running": true}'' '''') = Inr (PyDict [(''running'', PyBool True)])\<close>
    by (simp add: get_status_def get_status_body_def loads_only_running)
  obtain s1 where p1: \<open>poll_status default_limits (Completed 0 ''{"running": true}'' '''') (fst (new_systray True)) = Inr (s1, True)\<close>
    and r1: "running s1 = PyBool True"
    by (simp add: poll_status_dict [OF g1])
  obtain s2 where p2: "poll_status default_limits (Completed 0 ''{}'' '''') (fst (new_systray True)) = Inr (s2, True)"
    and r2: "running s2 = PyBool False"
    by (simp add: poll_status_dict [OF get_status_empty_object])
  have t: "item_toggle (fst (new_systray True)) \<noteq> None"
    by (simp add: new_systray_def build_menu_def)
  from toggle_label_follows_running [OF p1] r1 t
  have l1: "map_option label (item_toggle s1) = Some ''Stop Relay''"
    by simp
  from toggle_label_follows_running [OF p2] r2 t
  have l2: "map_option label (item_toggle s2) = Some ''Start Relay''"
    by simp
  show ?thesis
    using p1 r1 l1 p2 r2 l2 by blast
qed

section \<open>The toggle action\<close>

text \<open>
  \<^verbatim>\<open>_on_toggle\<close> leaves the toggle item insensitive, with the transitional label, and
  starts the worker; the worker queues \<^verbatim>\<open>_poll_status_once\<close> last, whatever the outcome
  of the action.
\<close>

lemma on_toggle_disables:
  "map_option sensitive (item_toggle (fst (on_toggle s))) = map_option (\<lambda>w. False) (item_toggle s)
   \<and> map_option label (item_toggle (fst (on_toggle s))) =
       map_option (\<lambda>w. if truthy (running s) then ''Stopping...'' else ''Starting...'') (item_toggle s)
   \<and> snd (on_toggle s) = [Start_thread (if truthy (running s) then ''stop'' else ''start'')]"
  by (simp add: on_toggle_def set_sensitive_def set_label_def option.map_comp comp_def)

lemma run_action_queues_repoll: "\<exists>es. run_action action r = es @ [Idle_add Poll_status_once]"
  by (simp add: run_action_def)

text \<open>
  \<^verbatim>\<open>_poll_status_once\<close> makes the toggle item sensitive when its poll returns, and is
  left by the exception of the poll otherwise.
\<close>

lemma poll_status_once_enables:
  assumes "poll_status py r s = Inr (s', k)"
  shows "poll_status_once py r s =
           Inr (s'\<lparr>item_toggle := map_option (set_sensitive True) (item_toggle s')\<rparr>, False)"
  using assms by (simp add: poll_status_once_def)

lemma poll_status_once_raises:
  assumes "poll_status py r s = Inl e"
  shows "poll_status_once py r s = Inl e"
  using assms by (simp add: poll_status_once_def)

lemma get_status_uncaught:
  assumes "e \<noteq> TimeoutExpired" and "e \<noteq> JSONDecodeError" and "e \<noteq> FileNotFoundError"
  shows "get_status py (Raised e m) = Inl e"
  using assms by (simp add: get_status_def get_status_body_def)

text \<open>The indicator after \<^verbatim>\<open>__init__\<close>, when the first status query prints \<^verbatim>\<open>{}\<close>.\<close>

lemma start_app_stopped:
  "start_app True default_limits (Completed 0 ''{}'' []) =
     Inr \<lparr>app = \<lparr>running = PyBool False, persistent = PyBool False,
                tray = Indicator ''camera-disabled-symbolic'',
                item_toggle = Some \<lparr>label = ''Start Relay'', sensitive = True\<rparr>,
                item_persistent = Some \<lparr>label = ''Enable Persistent Mode'', sensitive = True\<rparr>,
                item_status = Some \<lparr>label = ''Status: STOPPED'', sensitive = False\<rparr>\<rparr>,
          sources = [Timeout_seconds 5 Poll_status],
          trace = [Timeout_add_seconds 5 Poll_status]\<rparr>"
  by (simp add: start_app_def init_def new_systray_def build_menu_def poll_status_def
      get_status_empty_object set_label_def perform_def POLL_INTERVAL_def)

text \<open>
  C4. When a start or stop action completes with a non-zero return code, the worker queues
  one error dialog whose message is \<^verbatim>\<open>Failed to <action> relay:\<close>, an empty line, and then
  the standard error of the action stripped of surrounding whitespace, or the stripped
  standard output when that is empty, or \<^verbatim>\<open>Unknown error\<close> when both are empty. The
  return code decides that the dialog is queued and is no part of the message: the effects
  are those for return code 1 with the same output. The dialog shown is an error dialog
  titled \<^verbatim>\<open>Camera Relay Error\<close> carrying that message.
\<close>

theorem failure_message_from_output:
  assumes "returncode \<noteq> 0"
  shows "run_action action (Completed returncode out err) =
           [Idle_add (Show_error (''Failed to '' @ action @ '' relay:'' @ [CHR 0x0A, CHR 0x0A]
                        @ (if strip err \<noteq> [] then strip err
                           else if strip out \<noteq> [] then strip out
                           else ''Unknown error''))),
            Idle_add Poll_status_once]
         \<and> run_action action (Completed returncode out err) = run_action action (Completed 1 out err)
         \<and> invoke (Show_error message) py r s =
             (Inr (s, False), [Message_dialog ERROR ''Camera Relay Error'' message])"
  using assms by (simp add: run_action_def str_or_def show_error_def)

text \<open>
  The theorem at a stop action that exits with code 3 and prints
  \<^verbatim>\<open>relay is not running\<close> on its standard output only.
\<close>

theorem failure_message_from_output_witness:
  "(3::int) \<noteq> 0
   \<and> run_action ''stop'' (Completed 3 (''relay is not running'' @ [CHR 0x0A]) []) =
       [Idle_add (Show_error (''Failed to stop relay:'' @ [CHR 0x0A, CHR 0x0A] @ ''relay is not running'')),
        Idle_add Poll_status_once]"
proof -
  have h: "(3::int) \<noteq> 0" by simp
  show ?thesis
    using h strip_empty strip_not_running
      failure_message_from_output [OF h, where action = "''stop''"
        and out = "''relay is not running'' @ [CHR 0x0A]" and err = "[]"]
    by simp
qed

text \<open>
  A start action that exits with code 1 and one that exits with code 2, with different
  standard outputs and the same standard error, queue the same message: it is the header
  and the stripped standard error, holds no digit, and so says nothing of the exit code;
  the standard output is left out.
\<close>

theorem failure_message_counterexample:
  "run_action ''start'' (Completed 1 (''starting relay'' @ [CHR 0x0A]) (''camera busy'' @ [CHR 0x0A])) =
     [Idle_add (Show_error (''Failed to start relay:'' @ [CHR 0x0A, CHR 0x0A] @ ''camera busy'')),
      Idle_add Poll_status_once]
   \<and> run_action ''start'' (Completed 2 [] (''camera busy'' @ [CHR 0x0A])) =
     [Idle_add (Show_error (''Failed to start relay:'' @ [CHR 0x0A, CHR 0x0A] @ ''camera busy'')),
      Idle_add Poll_status_once]
   \<and> filter is_digit (''Failed to start relay:'' @ [CHR 0x0A, CHR 0x0A] @ ''camera busy'') = []"
proof -
  have a: "filter is_digit (''Failed to start relay:'' @ [CHR 0x0A, CHR 0x0A] @ ''camera busy'') = []"
    by (simp add: is_digit_def in_range_def ord_def)
  have b: "run_action ''start'' (Completed 1 (''starting relay'' @ [CHR 0x0A]) (''camera busy'' @ [CHR 0x0A])) =
     [Idle_add (Show_error (''Failed to start relay:'' @ [CHR 0x0A, CHR 0x0A] @ ''camera busy'')),
      Idle_add Poll_status_once]"
    using strip_camera_busy strip_starting by (simp add: run_action_def str_or_def)
  have c: "run_action ''start'' (Completed 2 [] (''camera busy'' @ [CHR 0x0A])) =
     [Idle_add (Show_error (''Failed to start relay:'' @ [CHR 0x0A, CHR 0x0A] @ ''camera busy'')),
      Idle_add Poll_status_once]"
    using strip_camera_busy strip_starting by (simp add: run_action_def str_or_def)
  show ?thesis
    using a b c by blast
qed

text \<open>
  C5. \<^verbatim>\<open>_on_toggle\<close> makes the toggle item insensitive and the worker queues
  \<^verbatim>\<open>_poll_status_once\<close> for every outcome of the action, but \<^verbatim>\<open>_poll_status_once\<close>
  calls \<^verbatim>\<open>_poll_status\<close> before \<^verbatim>\<open>set_sensitive(True)\<close>, and nothing catches an
  exception of that call. In the run below the indicator starts with a stopped relay, the
  user activates the toggle item, and the start action succeeds. When the status query of
  the queued re-poll prints \<^verbatim>\<open>null\<close>, or cannot be started (\<^verbatim>\<open>OSError\<close>), the re-poll
  is left by the exception: its source is removed and the toggle item is still insensitive,
  labelled \<^verbatim>\<open>Starting...\<close>. The periodic poll that follows sets the label and leaves the
  item insensitive.
\<close>

theorem toggle_left_insensitive:
  "(case start_app True default_limits (Completed 0 ''{}'' []) of
      Inl e \<Rightarrow> False
    | Inr ml \<Rightarrow>
        (let ml1 = worker ''start'' (Completed 0 [] []) (activate_toggle ml);
             ml2 = dispatch 1 default_limits (Completed 0 ''null'' []) ml1;
             ml3 = dispatch 0 default_limits (Completed 0 ''{}'' []) ml2;
             ml2' = dispatch 1 default_limits (Raised OSError ''[Errno 24] Too many open files'') ml1
         in item_toggle (app ml1) = Some \<lparr>label = ''Starting...'', sensitive = False\<rparr>
          \<and> sources ml1 = [Timeout_seconds 5 Poll_status, Idle Poll_status_once]
          \<and> item_toggle (app ml2) = Some \<lparr>label = ''Starting...'', sensitive = False\<rparr>
          \<and> sources ml2 = [Timeout_seconds 5 Poll_status]
          \<and> item_toggle (app ml3) = Some \<lparr>label = ''Start Relay'', sensitive = False\<rparr>
          \<and> sources ml3 = [Timeout_seconds 5 Poll_status]
          \<and> item_toggle (app ml2') = Some \<lparr>label = ''Starting...'', sensitive = False\<rparr>
          \<and> sources ml2' = [Timeout_seconds 5 Poll_status]))"
  by (simp add: start_app_stopped activate_toggle_def on_toggle_def worker_def run_action_def
      perform_def dispatch_def poll_status_once_def poll_status_def get_status_empty_object
      get_status_null get_status_uncaught set_label_def set_sensitive_def detach_def Let_def)

section \<open>Persistent mode\<close>

text \<open>
  The confirmation dialog: on \<^verbatim>\<open>OK\<close> one process is started and one timeout source is
  added; on any other response nothing follows the dialog.
\<close>

lemma confirm_enable_persistent:
  "show_persistent_warning OK (Spawned x) =
     ([Message_dialog WARNING ''Enable Persistent Mode?'' persistent_warning,
       Popen [''/usr/local/bin/camera-relay'', ''enable-persistent'', ''--yes''],
       Timeout_add 1000 Poll_status], None)"
  by (simp add: show_persistent_warning_def RELAY_CMD_def)

lemma cancel_enable_persistent:
  assumes "resp \<noteq> OK"
  shows "show_persistent_warning resp p =
           ([Message_dialog WARNING ''Enable Persistent Mode?'' persistent_warning], None)"
  using assms by (simp add: show_persistent_warning_def)

text \<open>
  A source whose callback is \<^verbatim>\<open>_poll_status\<close> stays attached whenever the poll it makes
  returns.
\<close>

lemma dispatch_poll_status_stays:
  assumes "i < length (sources ml)"
    and "source_callback (sources ml ! i) = Poll_status"
    and "poll_status py r (app ml) = Inr (s', k)"
  shows "sources (dispatch i py r ml) = sources ml"
proof -
  have "k" using assms(3) by (rule poll_status_keeps_polling)
  then show ?thesis
    using assms by (simp add: dispatch_def perform_def)
qed

text \<open>
  C2. Confirming the dialog starts \<^verbatim>\<open>camera-relay enable-persistent --yes\<close> once and
  calls \<^verbatim>\<open>GLib.timeout_add(1000, self._poll_status)\<close> once. The callback of that source
  is \<^verbatim>\<open>_poll_status\<close>, which returns \<^verbatim>\<open>True\<close>, so the source is not removed when it
  fires: in the run below the indicator starts, the user confirms the dialog, and the
  one-second source is dispatched twice; after each dispatch it is still attached, next to
  the periodic source of \<^verbatim>\<open>__init__\<close>. The re-poll repeats every second.
\<close>

theorem repoll_source_stays_attached:
  "(case start_app True default_limits (Completed 0 ''{}'' []) of
      Inl e \<Rightarrow> False
    | Inr ml \<Rightarrow>
        (let ml1 = activate_persistent OK (Spawned (Some 0)) ml;
             ml2 = dispatch 1 default_limits (Completed 0 ''{}'' []) ml1;
             ml3 = dispatch 1 default_limits (Completed 0 ''{}'' []) ml2
         in filter is_popen (trace ml1) =
              [Popen [''/usr/local/bin/camera-relay'', ''enable-persistent'', ''--yes'']]
          \<and> sources ml1 = [Timeout_seconds 5 Poll_status, Timeout 1000 Poll_status]
          \<and> sources ml2 = [Timeout_seconds 5 Poll_status, Timeout 1000 Poll_status]
          \<and> sources ml3 = [Timeout_seconds 5 Poll_status, Timeout 1000 Poll_status]))"
  by (simp add: start_app_stopped activate_persistent_def on_persistent_toggle_def
      show_persistent_warning_def perform_def dispatch_def poll_status_def get_status_empty_object
      set_label_def RELAY_CMD_def Let_def)

text \<open>
  C7. When \<^verbatim>\<open>self.persistent\<close> is true, activating the persistent-mode item shows no
  dialog and starts exactly one process, \<^verbatim>\<open>camera-relay disable-persistent\<close>, whatever
  the response a dialog would have got and whether or not the process can be started.
\<close>

theorem disable_persistent_no_dialog:
  assumes "truthy (persistent s)"
  shows "filter is_dialog (fst (on_persistent_toggle resp p s)) = []
         \<and> filter is_popen (fst (on_persistent_toggle resp p s)) =
             [Popen [''/usr/local/bin/camera-relay'', ''disable-persistent'']]"
  using assms by (cases p) (simp_all add: on_persistent_toggle_def RELAY_CMD_def)

text \<open>
  The theorem at an indicator whose last poll read \<^verbatim>\<open>{"running": true, "persistent": true}\<close>.
\<close>

theorem disable_persistent_no_dialog_witness:
  \<open>\<exists>s. poll_status default_limits (Completed 0 ''{"running": true, "persistent": true}'' '''') (fst (new_systray True)) =
          Inr (s, True)
      \<and> truthy (persistent s)
      \<and> filter is_dialog (fst (on_persistent_toggle CANCEL (Spawned None) s)) = []
      \<and> filter is_popen (fst (on_persistent_toggle CANCEL (Spawned None) s)) =
          [Popen [''/usr/local/bin/camera-relay'', ''disable-persistent'']]\<close>
proof -
  have g: \<open>get_status default_limits (Completed 0 ''{"running": true, "persistent": true}'' '''') =
     Inr (PyDict [(''running'', PyBool True), (''persistent'', PyBool True)])\<close>
    by (simp add: get_status_def get_status_body_def loads_running)
  obtain s where p: \<open>poll_status default_limits (Completed 0 ''{"running": true, "persistent": true}'' '''')
        (fst (new_systray True)) = Inr (s, True)\<close>
    and h: "truthy (persistent s)"
    by (simp add: poll_status_dict [OF g])
  show ?thesis
    using p h disable_persistent_no_dialog [OF h, of CANCEL "Spawned None"] by blast
qed

text \<open>
  C9. The persistent-mode actions are started with \<^verbatim>\<open>Popen\<close> and never waited for: what
  the handler does is the same for every exit status the started process ends with. For
  every response to the dialog and every outcome of \<^verbatim>\<open>Popen\<close> the handler shows no error
  dialog; the only source it attaches is the one-second poll, and a poll shows no dialog.
\<close>

theorem persistent_failures_not_surfaced:
  "on_persistent_toggle resp (Spawned x) s = on_persistent_toggle resp (Spawned y) s
   \<and> filter is_error_dialog (fst (on_persistent_toggle resp p s)) = []
   \<and> concat (map attach (fst (on_persistent_toggle resp p s))) \<in> {[], [Timeout 1000 Poll_status]}
   \<and> snd (invoke Poll_status py r s') = []"
  by (cases p) (simp_all add: on_persistent_toggle_def show_persistent_warning_def)

section \<open>The early exits\<close>

text \<open>
  C8. When neither \<^verbatim>\<open>DISPLAY\<close> nor \<^verbatim>\<open>WAYLAND_DISPLAY\<close> is set (or both are empty), the
  program prints one line on standard error and ends with \<^verbatim>\<open>sys.exit(0)\<close>. When a display
  is set, the lock file opens and \<^verbatim>\<open>fcntl.flock\<close> raises an \<^verbatim>\<open>OSError\<close> (as it does
  with \<^verbatim>\<open>BlockingIOError\<close> when another process holds the lock), the program prints one
  line on standard error and ends with \<^verbatim>\<open>sys.exit(0)\<close>. Whenever these statements end
  with \<^verbatim>\<open>sys.exit\<close>, the status is 0 and a line has been printed on standard error.
\<close>

theorem early_exits_succeed:
  "(not_set (DISPLAY env) \<and> not_set (WAYLAND_DISPLAY env) \<longrightarrow>
      startup env open_raises flock_raises =
        ([''camera-relay-systray: No display detected, exiting.''], Exit 0))
   \<and> (\<not> (not_set (DISPLAY env) \<and> not_set (WAYLAND_DISPLAY env)) \<and> is_OSError e \<longrightarrow>
      startup env None (Some e) =
        ([''camera-relay-systray: Another instance is already running.''], Exit 0))
   \<and> (\<forall>n. snd (startup env open_raises flock_raises) = Exit n \<longrightarrow>
         n = 0 \<and> fst (startup env open_raises flock_raises) \<noteq> [])"
  by (auto simp: startup_def split: option.splits if_splits)

text \<open>
  The theorem at an environment without a display, and at an X11 session in which another
  instance holds the lock.
\<close>

theorem early_exits_succeed_witness:
  "not_set (DISPLAY \<lparr>DISPLAY = None, WAYLAND_DISPLAY = None, XDG_RUNTIME_DIR = Some ''/run/user/1000''\<rparr>)
   \<and> not_set (WAYLAND_DISPLAY \<lparr>DISPLAY = None, WAYLAND_DISPLAY = None, XDG_RUNTIME_DIR = Some ''/run/user/1000''\<rparr>)
   \<and> startup \<lparr>DISPLAY = None, WAYLAND_DISPLAY = None, XDG_RUNTIME_DIR = Some ''/run/user/1000''\<rparr> None None =
       ([''camera-relay-systray: No display detected, exiting.''], Exit 0)
   \<and> \<not> not_set (DISPLAY \<lparr>DISPLAY = Some '':0'', WAYLAND_DISPLAY = None, XDG_RUNTIME_DIR = Some ''/run/user/1000''\<rparr>)
   \<and> is_OSError BlockingIOError
   \<and> startup \<lparr>DISPLAY = Some '':0'', WAYLAND_DISPLAY = None, XDG_RUNTIME_DIR = Some ''/run/user/1000''\<rparr>
        None (Some BlockingIOError) =
       ([''camera-relay-systray: Another instance is already running.''], Exit 0)"
proof -
  have a: "not_set (DISPLAY \<lparr>DISPLAY = None, WAYLAND_DISPLAY = None, XDG_RUNTIME_DIR = Some ''/run/user/1000''\<rparr>)"
    and b: "not_set (WAYLAND_DISPLAY \<lparr>DISPLAY = None, WAYLAND_DISPLAY = None, XDG_RUNTIME_DIR = Some ''/run/user/1000''\<rparr>)"
    and c: "\<not> not_set (DISPLAY \<lparr>DISPLAY = Some '':0'', WAYLAND_DISPLAY = None, XDG_RUNTIME_DIR = Some ''/run/user/1000''\<rparr>)"
    and d: "is_OSError BlockingIOError"
    by (simp_all add: not_set_def)
  show ?thesis
    using a b c d
      early_exits_succeed [where env = "\<lparr>DISPLAY = None, WAYLAND_DISPLAY = None, XDG_RUNTIME_DIR = Some ''/run/user/1000''\<rparr>"
        and open_raises = None and flock_raises = None]
      early_exits_succeed [where env = "\<lparr>DISPLAY = Some '':0'', WAYLAND_DISPLAY = None, XDG_RUNTIME_DIR = Some ''/run/user/1000''\<rparr>"
        and e = BlockingIOError]
    by blast
qed

end
